theory Spec2Isabelle
  imports Main
begin

section \<open>The page the script runs against\<close>

text \<open>
  \<^verbatim>\<open>src/Frontend/js/tabs.js\<close> is fourteen lines of DOM wiring. Its whole state is the
  page: element objects, which of them are attached to the document (in tree order), and
  the click listeners registered on them. Elements are objects with identity: the static
  list \<^verbatim>\<open>tabs\<close> keeps references to them whatever happens to the document later. So
  elements live in a store indexed by references, and both the document and \<^verbatim>\<open>tabs\<close>
  are lists of references.

  Of an element the script reads and writes
  \<^item> its ID (\<^verbatim>\<open>getElementById\<close>): \<open>None\<close> when the element has no ID;
  \<^item> its \<^verbatim>\<open>classList\<close>, the ordered set of class tokens;
  \<^item> its other attributes (\<^verbatim>\<open>getAttribute\<close>), as an association list.
\<close>

type_synonym ref = nat

record element =
  elem_id :: "string option"
  classList :: "string list"
  attributes :: "(string \<times> string) list"

text \<open>
  The only closures the script creates are the arrow functions of line 4, one per
  iteration of the outer \<^verbatim>\<open>forEach\<close>, each closed over its own \<^verbatim>\<open>tab\<close>.
\<close>

datatype listener = TabClick ref

record page =
  heap :: "ref \<Rightarrow> element"
  document :: "ref list"
  listeners :: "ref \<Rightarrow> listener list"

text \<open>
  Line 12 dereferences the result of \<^verbatim>\<open>getElementById\<close>; when that is \<^verbatim>\<open>null\<close> the
  property access throws a \<^verbatim>\<open>TypeError\<close>, the only exception the script can raise.
\<close>

datatype error = TypeError

section \<open>The DOM operations the script calls\<close>

definition has_class :: "page \<Rightarrow> ref \<Rightarrow> string \<Rightarrow> bool" where
  "has_class s r c = (c \<in> set (classList (heap s r)))"

text \<open>\<^verbatim>\<open>e.classList.remove(c)\<close>: the token leaves the ordered set.\<close>

definition classList_remove :: "ref \<Rightarrow> string \<Rightarrow> page \<Rightarrow> page" where
  "classList_remove r c s =
     s\<lparr>heap := (heap s)(r := (heap s r)\<lparr>classList := removeAll c (classList (heap s r))\<rparr>)\<rparr>"

text \<open>\<^verbatim>\<open>e.classList.add(c)\<close>: the token is appended unless it is already there.\<close>

definition classList_add :: "ref \<Rightarrow> string \<Rightarrow> page \<Rightarrow> page" where
  "classList_add r c s =
     s\<lparr>heap := (heap s)(r := (heap s r)\<lparr>classList :=
        (if c \<in> set (classList (heap s r)) then classList (heap s r)
         else classList (heap s r) @ [c])\<rparr>)\<rparr>"

text \<open>
  \<^verbatim>\<open>document.querySelectorAll('.c')\<close>: the elements of the document that carry the class
  token \<open>c\<close>, in tree order, as a static list. Tokens are compared exactly, as in a
  document in standards mode.
\<close>

definition querySelectorAll :: "string \<Rightarrow> page \<Rightarrow> ref list" where
  "querySelectorAll c s = filter (\<lambda>r. has_class s r c) (document s)"

text \<open>\<^verbatim>\<open>e.getAttribute(name)\<close>: the value, or \<^verbatim>\<open>null\<close> (\<open>None\<close>) when the attribute is absent.\<close>

definition getAttribute :: "ref \<Rightarrow> string \<Rightarrow> page \<Rightarrow> string option" where
  "getAttribute r name s = map_of (attributes (heap s r)) name"

text \<open>
  \<^verbatim>\<open>getElementById\<close> takes a string. Line 12 passes it whatever \<^verbatim>\<open>getAttribute\<close>
  returned, and the conversion of \<^verbatim>\<open>null\<close> to a string is the four characters
  \<^verbatim>\<open>null\<close>.
\<close>

definition DOMString :: "string option \<Rightarrow> string" where
  "DOMString v = (case v of None \<Rightarrow> ''null'' | Some x \<Rightarrow> x)"

text \<open>
  \<^verbatim>\<open>document.getElementById(i)\<close>: the first element of the document, in tree order,
  whose ID is \<open>i\<close>, or \<^verbatim>\<open>null\<close> (\<open>None\<close>). No element has the empty string as its ID.
\<close>

definition getElementById :: "string \<Rightarrow> page \<Rightarrow> ref option" where
  "getElementById i s =
     (if i = [] then None else find (\<lambda>r. elem_id (heap s r) = Some i) (document s))"

text \<open>\<^verbatim>\<open>e.addEventListener('click', l)\<close>: the listener joins the element's list.\<close>

definition addEventListener :: "ref \<Rightarrow> listener \<Rightarrow> page \<Rightarrow> page" where
  "addEventListener r l s = s\<lparr>listeners := (listeners s)(r := listeners s r @ [l])\<rparr>"

text \<open>\<^verbatim>\<open>list.forEach(f)\<close> over a static list, \<open>f\<close> acting on the page.\<close>

definition forEach :: "ref list \<Rightarrow> (ref \<Rightarrow> page \<Rightarrow> page) \<Rightarrow> page \<Rightarrow> page" where
  "forEach xs f s = fold f xs s"

text \<open>
  What the rest of the page may do after the script has run: attach an element object to
  the document (here as its last element in tree order).
\<close>

definition appendChild :: "ref \<Rightarrow> page \<Rightarrow> page" where
  "appendChild r s = s\<lparr>document := document s @ [r]\<rparr>"

section \<open>The script\<close>

text \<open>
  Lines 4 to 13, the click listener closed over \<^verbatim>\<open>tab\<close>, reading the module-level
  \<^verbatim>\<open>tabs\<close>. It returns the page as the listener leaves it, together with how it ended:
  normally, or with the \<^verbatim>\<open>TypeError\<close> of line 12 (by then lines 5 to 11 have taken
  effect).
\<close>

definition click_listener :: "ref list \<Rightarrow> ref \<Rightarrow> page \<Rightarrow> (error + unit) \<times> page" where
  "click_listener tabs tab s =
     (let target = getAttribute tab ''data-tab'' s;
          s1 = forEach tabs (\<lambda>t. classList_remove t ''active'') s;
          s2 = forEach (querySelectorAll ''tab-content'' s1)
                 (\<lambda>content. classList_remove content ''visible'') s1;
          s3 = classList_add tab ''active'' s2
      in case getElementById (DOMString target) s3 of
           None \<Rightarrow> (Inl TypeError, s3)
         | Some e \<Rightarrow> (Inr (), classList_add e ''visible'' s3))"

text \<open>
  Lines 1 to 4 and 14: the script itself. It returns the value of \<^verbatim>\<open>tabs\<close> and the page
  with the listeners attached.
\<close>

definition tabs_script :: "page \<Rightarrow> ref list \<times> page" where
  "tabs_script s =
     (let tabs = querySelectorAll ''tab-button'' s
      in (tabs, forEach tabs (\<lambda>tab. addEventListener tab (TabClick tab)) s))"

text \<open>
  A click on element \<open>r\<close> runs the listeners registered on \<open>r\<close>, in order. An exception
  thrown by a listener is reported by the browser and does not stop the page: the next
  event finds the page as the listener left it.
\<close>

fun run_listener :: "ref list \<Rightarrow> listener \<Rightarrow> page \<Rightarrow> (error + unit) \<times> page" where
  "run_listener tabs (TabClick tab) s = click_listener tabs tab s"

definition dispatch_click :: "ref list \<Rightarrow> ref \<Rightarrow> page \<Rightarrow> page" where
  "dispatch_click tabs r s = fold (\<lambda>l s'. snd (run_listener tabs l s')) (listeners s r) s"

text \<open>A sequence of invocations of the click listener, for the triggers \<open>ts\<close> in turn.\<close>

definition clicks :: "ref list \<Rightarrow> ref list \<Rightarrow> page \<Rightarrow> page" where
  "clicks tabs ts s = fold (\<lambda>t s'. snd (click_listener tabs t s')) ts s"

section \<open>Vocabulary of the claims\<close>

text \<open>
  A panel is an element of the document carrying the panel marker class; the known panels
  of a page are those \<^verbatim>\<open>querySelectorAll('.tab-content')\<close> returns. The target of a trigger
  is what line 12 looks up for it.
\<close>

definition panels :: "page \<Rightarrow> ref list" where
  "panels s = querySelectorAll ''tab-content'' s"

definition target_of :: "ref \<Rightarrow> page \<Rightarrow> ref option" where
  "target_of tab s = getElementById (DOMString (getAttribute tab ''data-tab'' s)) s"

text \<open>
  The selection invariant as the data model words it: at most one known trigger is
  active, at most one known panel is visible, and an active trigger has a matching panel
  that is visible.
\<close>

definition at_most_one :: "ref list \<Rightarrow> (ref \<Rightarrow> bool) \<Rightarrow> bool" where
  "at_most_one xs P = (\<forall>x \<in> set xs. \<forall>y \<in> set xs. P x \<longrightarrow> P y \<longrightarrow> x = y)"

definition selection_invariant :: "ref list \<Rightarrow> page \<Rightarrow> bool" where
  "selection_invariant tabs s =
     (at_most_one tabs (\<lambda>t. has_class s t ''active'') \<and>
      at_most_one (panels s) (\<lambda>p. has_class s p ''visible'') \<and>
      (\<forall>t \<in> set tabs. has_class s t ''active'' \<longrightarrow>
         (\<exists>p \<in> set (panels s). target_of t s = Some p \<and> has_class s p ''visible'')))"

text \<open>
  What the listener does establish: the same, except that the active trigger's target is
  visible only so far as line 12 finds an element for it.
\<close>

definition selection_established :: "ref list \<Rightarrow> page \<Rightarrow> bool" where
  "selection_established tabs s =
     (at_most_one tabs (\<lambda>t. has_class s t ''active'') \<and>
      at_most_one (panels s) (\<lambda>p. has_class s p ''visible'') \<and>
      (\<forall>t \<in> set tabs. has_class s t ''active'' \<longrightarrow>
         (case target_of t s of None \<Rightarrow> True | Some e \<Rightarrow> has_class s e ''visible'')))"

text \<open>
  Two pages agree on their markers when they have the same document and listeners and
  every element has the same ID, the same attributes and the same set of class tokens.
\<close>

definition same_element :: "element \<Rightarrow> element \<Rightarrow> bool" where
  "same_element a b =
     (elem_id a = elem_id b \<and> attributes a = attributes b \<and>
      set (classList a) = set (classList b))"

text \<open>
  The life of the page after the script has run: clicks on elements, and elements being
  attached to the document.
\<close>

datatype event = Click ref | Attach ref

fun step :: "ref list \<Rightarrow> event \<Rightarrow> page \<Rightarrow> page" where
  "step tabs (Click r) s = dispatch_click tabs r s"
| "step tabs (Attach r) s = appendChild r s"

definition run :: "ref list \<Rightarrow> event list \<Rightarrow> page \<Rightarrow> page" where
  "run tabs evs s = fold (step tabs) evs s"

section \<open>Example pages\<close>

definition blank :: element where
  "blank = \<lparr>elem_id = None, classList = [], attributes = []\<rparr>"

definition button :: "string list \<Rightarrow> string \<Rightarrow> element" where
  "button cs tgt = \<lparr>elem_id = None, classList = ''tab-button'' # cs,
                    attributes = [(''data-tab'', tgt)]\<rparr>"

definition panel :: "string \<Rightarrow> string list \<Rightarrow> element" where
  "panel i cs = \<lparr>elem_id = Some i, classList = ''tab-content'' # cs, attributes = []\<rparr>"

text \<open>
  The scenario of the testable properties: triggers 0 and 1 for the panels 2 and 3, the
  first pair selected by the markup. Element 4 is a further trigger, marked active, that
  is not attached to the document when the script runs; element 5 a further panel, marked
  visible, likewise.
\<close>

definition page_ab :: page where
  "page_ab = \<lparr>heap = (\<lambda>_. blank)
       (0 := button [''active''] ''panel-a'', 1 := button [] ''panel-b'',
        2 := panel ''panel-a'' [''visible''], 3 := panel ''panel-b'' [],
        4 := button [''active''] ''panel-c'', 5 := panel ''panel-c'' [''visible'']),
     document = [0, 1, 2, 3], listeners = (\<lambda>_. [])\<rparr>"

text \<open>
  Trigger 1 names a panel that the document does not have. Element 3 would be that panel,
  but is not attached to the document.
\<close>

definition page_missing :: page where
  "page_missing = \<lparr>heap = (\<lambda>_. blank)
       (0 := button [''active''] ''panel-a'', 1 := button [] ''missing'',
        2 := panel ''panel-a'' [''visible''], 3 := panel ''missing'' []),
     document = [0, 1, 2], listeners = (\<lambda>_. [])\<rparr>"

text \<open>Trigger 0 names element 1, which has the ID but not the panel marker class.\<close>

definition page_plain :: page where
  "page_plain = \<lparr>heap = (\<lambda>_. blank)
       (0 := button [] ''x'', 1 := \<lparr>elem_id = Some ''x'', classList = [], attributes = []\<rparr>),
     document = [0, 1], listeners = (\<lambda>_. [])\<rparr>"

text \<open>Trigger 0 has no \<^verbatim>\<open>data-tab\<close> attribute; panel 1 has the ID \<^verbatim>\<open>null\<close>.\<close>

definition page_null :: page where
  "page_null = \<lparr>heap = (\<lambda>_. blank)
       (0 := \<lparr>elem_id = None, classList = [''tab-button''], attributes = []\<rparr>,
        1 := panel ''null'' []),
     document = [0, 1], listeners = (\<lambda>_. [])\<rparr>"

text \<open>Trigger 0 has no \<^verbatim>\<open>data-tab\<close> attribute; trigger 1 and panel 2 are selected.\<close>

definition page_bare :: page where
  "page_bare = \<lparr>heap = (\<lambda>_. blank)
       (0 := \<lparr>elem_id = None, classList = [''tab-button''], attributes = []\<rparr>,
        1 := button [''active''] ''panel-a'', 2 := panel ''panel-a'' [''visible'']),
     document = [0, 1, 2], listeners = (\<lambda>_. [])\<rparr>"

text \<open>
  Two elements share the ID that trigger 0 names: element 1, first in tree order, is not a
  panel; element 2 is a panel.
\<close>

definition page_dup :: page where
  "page_dup = \<lparr>heap = (\<lambda>_. blank)
       (0 := button [] ''x'', 1 := \<lparr>elem_id = Some ''x'', classList = [], attributes = []\<rparr>,
        2 := panel ''x'' []),
     document = [0, 1, 2], listeners = (\<lambda>_. [])\<rparr>"

lemmas example_defs =
  blank_def button_def panel_def page_ab_def page_missing_def page_plain_def page_null_def
  page_bare_def page_dup_def

lemmas dom_defs =
  has_class_def classList_remove_def classList_add_def querySelectorAll_def getAttribute_def
  DOMString_def getElementById_def addEventListener_def forEach_def appendChild_def
  click_listener_def tabs_script_def dispatch_click_def clicks_def panels_def target_of_def
  run_def


section \<open>What one invocation of the listener does to each element\<close>

lemma heap_forEach_remove:
  "heap (forEach rs (\<lambda>t. classList_remove t c) s) r =
     (if r \<in> set rs then (heap s r)\<lparr>classList := removeAll c (classList (heap s r))\<rparr>
      else heap s r)"
  unfolding forEach_def
proof (induction rs arbitrary: s)
  case Nil
  show ?case by simp
next
  case (Cons x xs)
  show ?case
    by (simp add: Cons.IH) (simp add: classList_remove_def)
qed

lemma document_forEach_remove:
  "document (forEach rs (\<lambda>t. classList_remove t c) s) = document s"
  unfolding forEach_def
  by (induction rs arbitrary: s) (simp_all add: classList_remove_def)

lemma listeners_forEach_remove:
  "listeners (forEach rs (\<lambda>t. classList_remove t c) s) = listeners s"
  unfolding forEach_def
  by (induction rs arbitrary: s) (simp_all add: classList_remove_def)

lemma classList_forEach_remove:
  "classList (heap (forEach rs (\<lambda>t. classList_remove t c) s) r) =
     (if r \<in> set rs then removeAll c (classList (heap s r)) else classList (heap s r))"
  by (simp add: heap_forEach_remove)

lemma elem_id_forEach_remove:
  "elem_id (heap (forEach rs (\<lambda>t. classList_remove t c) s) x) = elem_id (heap s x)"
  by (simp add: heap_forEach_remove)

lemma classList_classList_add:
  "classList (heap (classList_add x c s) r) =
     (if r = x
      then (if c \<in> set (classList (heap s r)) then classList (heap s r)
            else classList (heap s r) @ [c])
      else classList (heap s r))"
  by (simp add: classList_add_def)

lemma elem_id_classList_add:
  "elem_id (heap (classList_add r c s) x) = elem_id (heap s x)"
  by (simp add: classList_add_def)

lemma document_classList_add:
  "document (classList_add r c s) = document s"
  by (simp add: classList_add_def)

lemma querySelectorAll_forEach_remove:
  "c \<noteq> d \<Longrightarrow>
   querySelectorAll d (forEach rs (\<lambda>t. classList_remove t c) s) = querySelectorAll d s"
  by (simp add: querySelectorAll_def has_class_def heap_forEach_remove document_forEach_remove
      cong: filter_cong)

lemma getElementById_forEach_remove:
  "getElementById i (forEach rs (\<lambda>t. classList_remove t c) s) = getElementById i s"
  by (simp add: getElementById_def elem_id_forEach_remove document_forEach_remove)

lemma getElementById_classList_add:
  "getElementById i (classList_add r c s) = getElementById i s"
  by (simp add: getElementById_def elem_id_classList_add document_classList_add)

lemma getElementById_line_12:
  "getElementById i
     (classList_add tab a
        (forEach ps (\<lambda>t. classList_remove t v) (forEach tabs (\<lambda>t. classList_remove t a) s)))
   = getElementById i s"
  by (simp add: getElementById_classList_add getElementById_forEach_remove)

text \<open>The listener, with the two lookups taken on the page it started from.\<close>

lemma snd_click_listener:
  "snd (click_listener tabs tab s) =
     (let s3 = classList_add tab ''active''
                 (forEach (panels s) (\<lambda>content. classList_remove content ''visible'')
                    (forEach tabs (\<lambda>t. classList_remove t ''active'') s))
      in case target_of tab s of None \<Rightarrow> s3 | Some e \<Rightarrow> classList_add e ''visible'' s3)"
proof -
  have p: "querySelectorAll ''tab-content'' (forEach tabs (\<lambda>t. classList_remove t ''active'') s)
             = panels s"
    unfolding panels_def by (rule querySelectorAll_forEach_remove) simp
  show ?thesis
    unfolding click_listener_def target_of_def Let_def p getElementById_line_12
    by (simp split: option.split)
qed

lemma fst_click_listener:
  "fst (click_listener tabs tab s) =
     (case target_of tab s of None \<Rightarrow> Inl TypeError | Some e \<Rightarrow> Inr ())"
  by (simp add: click_listener_def target_of_def Let_def getElementById_line_12
      split: option.split)

lemma document_click_listener:
  "document (snd (click_listener tabs tab s)) = document s"
  by (simp add: click_listener_def Let_def document_classList_add document_forEach_remove
      split: option.split)

lemma listeners_click_listener:
  "listeners (snd (click_listener tabs tab s)) = listeners s"
  by (simp add: snd_click_listener Let_def classList_add_def listeners_forEach_remove
      split: option.split)

lemma elem_id_click_listener:
  "elem_id (heap (snd (click_listener tabs tab s)) r) = elem_id (heap s r)"
  by (simp add: snd_click_listener Let_def elem_id_classList_add elem_id_forEach_remove
      split: option.split)

lemma attributes_click_listener:
  "attributes (heap (snd (click_listener tabs tab s)) r) = attributes (heap s r)"
  by (simp add: snd_click_listener Let_def classList_add_def heap_forEach_remove
      split: option.split)

text \<open>The class tokens of any element after the listener, line by line.\<close>

lemma classList_click_listener:
  "classList (heap (snd (click_listener tabs tab s)) r) =
     (let c0 = classList (heap s r);
          c1 = (if r \<in> set tabs then removeAll ''active'' c0 else c0);
          c2 = (if r \<in> set (panels s) then removeAll ''visible'' c1 else c1);
          c3 = (if r = tab then (if ''active'' \<in> set c2 then c2 else c2 @ [''active'']) else c2)
      in if target_of tab s = Some r
         then (if ''visible'' \<in> set c3 then c3 else c3 @ [''visible''])
         else c3)"
  unfolding snd_click_listener Let_def
  by (cases "target_of tab s")
     (simp_all only: option.case classList_classList_add classList_forEach_remove
        option.inject option.distinct if_False eq_commute [of _ r])

lemma active_click_listener:
  "has_class (snd (click_listener tabs tab s)) r ''active'' \<longleftrightarrow>
     r = tab \<or> (r \<notin> set tabs \<and> has_class s r ''active'')"
  by (auto simp add: has_class_def classList_click_listener Let_def)

lemma visible_click_listener:
  "has_class (snd (click_listener tabs tab s)) r ''visible'' \<longleftrightarrow>
     target_of tab s = Some r \<or> (r \<notin> set (panels s) \<and> has_class s r ''visible'')"
  by (auto simp add: has_class_def classList_click_listener Let_def)

lemma other_class_click_listener:
  "c \<noteq> ''active'' \<Longrightarrow> c \<noteq> ''visible'' \<Longrightarrow>
   has_class (snd (click_listener tabs tab s)) r c = has_class s r c"
  by (auto simp add: has_class_def classList_click_listener Let_def)

lemma panels_click_listener:
  "panels (snd (click_listener tabs tab s)) = panels s"
  by (simp add: panels_def querySelectorAll_def document_click_listener
      other_class_click_listener)

lemma target_of_click_listener:
  "target_of t (snd (click_listener tabs tab s)) = target_of t s"
  by (simp add: target_of_def getAttribute_def getElementById_def document_click_listener
      attributes_click_listener elem_id_click_listener)

section \<open>Clicking a known trigger\<close>

text \<open>
  Claim C1. For every trigger \<open>T\<close> among the triggers the script found when it ran,
  invoking the click listener of \<open>T\<close> leaves \<open>T\<close> with the \<^verbatim>\<open>active\<close> marker and every other
  trigger of that set without it. This holds on every page, whether or not line 12 throws.
\<close>

theorem click_activates_only_clicked_trigger:
  assumes "T \<in> set tabs"
  shows "has_class (snd (click_listener tabs T s)) T ''active'' \<and>
         (\<forall>t \<in> set tabs. t \<noteq> T \<longrightarrow>
            \<not> has_class (snd (click_listener tabs T s)) t ''active'')"
  by (simp add: active_click_listener)

theorem click_activates_only_clicked_trigger_witness:
  "(1::nat) \<in> set (fst (tabs_script page_ab)) \<and> has_class page_ab 0 ''active'' \<and>
   has_class (snd (click_listener (fst (tabs_script page_ab)) 1 page_ab)) 1 ''active'' \<and>
   \<not> has_class (snd (click_listener (fst (tabs_script page_ab)) 1 page_ab)) 0 ''active''"
proof -
  have tabs: "fst (tabs_script page_ab) = [0, 1]"
    by (simp add: dom_defs example_defs)
  have pre: "has_class page_ab 0 ''active''"
    by (simp add: dom_defs example_defs)
  from click_activates_only_clicked_trigger [of 1 "[0, 1]" page_ab] tabs pre
  show ?thesis by simp
qed

text \<open>
  Claim C2, amended. For every trigger \<open>T\<close> whose \<^verbatim>\<open>data-tab\<close> identifier resolves to a
  panel \<open>p\<close>, that is, the first element of the document in tree order that has the
  identifier as its ID is the panel \<open>p\<close>, invoking the click listener of \<open>T\<close> completes
  normally and leaves exactly \<open>p\<close> with the \<^verbatim>\<open>visible\<close> marker among the panels of the
  page.
\<close>

theorem click_shows_only_matching_panel:
  assumes "T \<in> set tabs" and "target_of T s = Some p" and "p \<in> set (panels s)"
  shows "fst (click_listener tabs T s) = Inr () \<and>
         has_class (snd (click_listener tabs T s)) p ''visible'' \<and>
         (\<forall>q \<in> set (panels (snd (click_listener tabs T s))). q \<noteq> p \<longrightarrow>
            \<not> has_class (snd (click_listener tabs T s)) q ''visible'')"
  using assms
  by (simp add: fst_click_listener visible_click_listener panels_click_listener)

theorem click_shows_only_matching_panel_witness:
  "(1::nat) \<in> set [0, 1] \<and> target_of 1 page_ab = Some 3 \<and> 3 \<in> set (panels page_ab) \<and>
   panels (snd (click_listener [0, 1] 1 page_ab)) = [2, 3] \<and>
   has_class page_ab 2 ''visible'' \<and>
   fst (click_listener [0, 1] 1 page_ab) = Inr () \<and>
   has_class (snd (click_listener [0, 1] 1 page_ab)) 3 ''visible'' \<and>
   \<not> has_class (snd (click_listener [0, 1] 1 page_ab)) 2 ''visible''"
proof -
  have tgt: "target_of 1 page_ab = Some 3"
    by (simp add: dom_defs example_defs)
  have ps: "panels page_ab = [2, 3]"
    by (simp add: dom_defs example_defs)
  have pre: "has_class page_ab 2 ''visible''"
    by (simp add: dom_defs example_defs)
  from click_shows_only_matching_panel [of 1 "[0, 1]" page_ab 3] tgt ps pre
  show ?thesis by (simp add: panels_click_listener)
qed

text \<open>
  As worded, for every trigger whose identifier names an existing panel, the statement
  fails on the page where an element that is not a panel carries the same ID earlier in
  the document: the panel with that ID exists, but line 12 finds the other element, marks
  it, and the panel stays without the \<^verbatim>\<open>visible\<close> marker.
\<close>

theorem click_misses_panel_with_duplicate_id:
  "fst (tabs_script page_dup) = [0] \<and> panels page_dup = [2] \<and>
   getAttribute 0 ''data-tab'' page_dup = Some ''x'' \<and>
   elem_id (heap page_dup 2) = Some ''x'' \<and>
   target_of 0 page_dup = Some 1 \<and>
   fst (click_listener [0] 0 page_dup) = Inr () \<and>
   has_class (snd (click_listener [0] 0 page_dup)) 1 ''visible'' \<and>
   \<not> has_class (snd (click_listener [0] 0 page_dup)) 2 ''visible''"
  by (simp add: dom_defs example_defs Let_def)

section \<open>A trigger whose target is not a panel\<close>

text \<open>
  Claim C3, amended. For every trigger \<open>T\<close> whose \<^verbatim>\<open>data-tab\<close> identifier does not resolve
  to an existing panel, the click listener leaves no panel visible. The panel-activation
  step is not silent, though: when the identifier resolves to no element at all, line 12
  throws a \<^verbatim>\<open>TypeError\<close> and the listener terminates abnormally; when it resolves to an
  element that is not a panel, the listener completes normally and marks that element
  visible.
\<close>

theorem dangling_target_throws_no_panel_visible:
  assumes "T \<in> set tabs" and "\<forall>p \<in> set (panels s). target_of T s \<noteq> Some p"
  shows "(\<forall>q \<in> set (panels (snd (click_listener tabs T s))).
            \<not> has_class (snd (click_listener tabs T s)) q ''visible'') \<and>
         (target_of T s = None \<longrightarrow> fst (click_listener tabs T s) = Inl TypeError) \<and>
         (\<forall>e. target_of T s = Some e \<longrightarrow>
            fst (click_listener tabs T s) = Inr () \<and>
            has_class (snd (click_listener tabs T s)) e ''visible'')"
  using assms
  by (simp add: fst_click_listener visible_click_listener panels_click_listener)

theorem dangling_target_throws_no_panel_visible_witness:
  "((1::nat) \<in> set [0, 1] \<and>
    target_of 1 page_missing = None \<and>
    has_class page_missing 2 ''visible'' \<and>
    panels (snd (click_listener [0, 1] 1 page_missing)) = [2] \<and>
    \<not> has_class (snd (click_listener [0, 1] 1 page_missing)) 2 ''visible'' \<and>
    fst (click_listener [0, 1] 1 page_missing) = Inl TypeError) \<and>
   ((0::nat) \<in> set [0] \<and>
    target_of 0 page_plain = Some 1 \<and> panels page_plain = [] \<and>
    fst (click_listener [0] 0 page_plain) = Inr () \<and>
    has_class (snd (click_listener [0] 0 page_plain)) 1 ''visible'')"
proof -
  have m: "target_of 1 page_missing = None" "panels page_missing = [2]"
    "has_class page_missing 2 ''visible''"
    by (simp_all add: dom_defs example_defs)
  have p: "target_of 0 page_plain = Some 1" "panels page_plain = []"
    by (simp_all add: dom_defs example_defs)
  from dangling_target_throws_no_panel_visible [of 1 "[0, 1]" page_missing]
    dangling_target_throws_no_panel_visible [of 0 "[0]" page_plain] m p
  show ?thesis by (simp add: panels_click_listener)
qed

text \<open>
  As worded, with the listener running to completion and no exception escaping, the
  statement fails on the page whose second trigger names the missing panel: the lookup of
  line 12 finds nothing and the listener ends with the \<^verbatim>\<open>TypeError\<close>.
\<close>

theorem dangling_target_not_silent:
  "(1::nat) \<in> set (fst (tabs_script page_missing)) \<and>
   target_of 1 page_missing = None \<and>
   fst (click_listener (fst (tabs_script page_missing)) 1 page_missing) = Inl TypeError"
  by (simp add: dom_defs example_defs)

text \<open>
  Claim C6. For every trigger \<open>T\<close> whose \<^verbatim>\<open>data-tab\<close> identifier names no existing panel,
  the page after the click listener of \<open>T\<close> has \<open>T\<close> carrying the \<^verbatim>\<open>active\<close> marker and
  no panel carrying the \<^verbatim>\<open>visible\<close> marker.
\<close>

theorem dangling_target_active_without_panel:
  assumes "T \<in> set tabs" and "\<forall>p \<in> set (panels s). target_of T s \<noteq> Some p"
  shows "has_class (snd (click_listener tabs T s)) T ''active'' \<and>
         (\<forall>q \<in> set (panels (snd (click_listener tabs T s))).
            \<not> has_class (snd (click_listener tabs T s)) q ''visible'')"
  using assms
  by (simp add: active_click_listener visible_click_listener panels_click_listener)

theorem dangling_target_active_without_panel_witness:
  "(1::nat) \<in> set [0, 1] \<and>
   target_of 1 page_missing = None \<and>
   has_class page_missing 2 ''visible'' \<and>
   panels (snd (click_listener [0, 1] 1 page_missing)) = [2] \<and>
   has_class (snd (click_listener [0, 1] 1 page_missing)) 1 ''active'' \<and>
   \<not> has_class (snd (click_listener [0, 1] 1 page_missing)) 2 ''visible''"
proof -
  have m: "target_of 1 page_missing = None" "panels page_missing = [2]"
    "has_class page_missing 2 ''visible''"
    by (simp_all add: dom_defs example_defs)
  from dangling_target_active_without_panel [of 1 "[0, 1]" page_missing] m
  show ?thesis by (simp add: panels_click_listener)
qed

section \<open>A trigger without a target attribute\<close>

text \<open>
  Claim C10, amended. For every trigger \<open>T\<close> that carries no \<^verbatim>\<open>data-tab\<close> attribute, on a
  page where no element has the ID \<^verbatim>\<open>null\<close> (the string the absent attribute becomes
  when line 12 passes it to \<^verbatim>\<open>getElementById\<close>), the click listener clears every known
  trigger's \<^verbatim>\<open>active\<close> marker and every panel's \<^verbatim>\<open>visible\<close> marker, marks \<open>T\<close> active, and
  then ends with the \<^verbatim>\<open>TypeError\<close> of line 12, leaving \<open>T\<close> active and no panel visible.
\<close>

theorem missing_attribute_throws:
  assumes "T \<in> set tabs" and "getAttribute T ''data-tab'' s = None"
    and "getElementById ''null'' s = None"
  shows "fst (click_listener tabs T s) = Inl TypeError \<and>
         has_class (snd (click_listener tabs T s)) T ''active'' \<and>
         (\<forall>t \<in> set tabs. t \<noteq> T \<longrightarrow>
            \<not> has_class (snd (click_listener tabs T s)) t ''active'') \<and>
         (\<forall>q \<in> set (panels (snd (click_listener tabs T s))).
            \<not> has_class (snd (click_listener tabs T s)) q ''visible'')"
proof -
  from assms(2,3) have tgt: "target_of T s = None"
    by (simp add: target_of_def DOMString_def)
  then show ?thesis
    by (simp add: fst_click_listener active_click_listener visible_click_listener
        panels_click_listener)
qed

theorem missing_attribute_throws_witness:
  "(0::nat) \<in> set [0, 1] \<and> getAttribute 0 ''data-tab'' page_bare = None \<and>
   getElementById ''null'' page_bare = None \<and>
   has_class page_bare 1 ''active'' \<and> has_class page_bare 2 ''visible'' \<and>
   panels (snd (click_listener [0, 1] 0 page_bare)) = [2] \<and>
   fst (click_listener [0, 1] 0 page_bare) = Inl TypeError \<and>
   has_class (snd (click_listener [0, 1] 0 page_bare)) 0 ''active'' \<and>
   \<not> has_class (snd (click_listener [0, 1] 0 page_bare)) 1 ''active'' \<and>
   \<not> has_class (snd (click_listener [0, 1] 0 page_bare)) 2 ''visible''"
proof -
  have b: "getAttribute 0 ''data-tab'' page_bare = None"
    "getElementById ''null'' page_bare = None"
    "has_class page_bare 1 ''active''" "has_class page_bare 2 ''visible''"
    "panels page_bare = [2]"
    by (simp_all add: dom_defs example_defs)
  from missing_attribute_throws [of 0 "[0, 1]" page_bare] b
  show ?thesis by (simp add: panels_click_listener)
qed

text \<open>
  As worded, for every such trigger, the statement fails on the page whose only panel has
  the ID \<^verbatim>\<open>null\<close>: the lookup of line 12 finds that panel, the listener completes
  normally and the panel is visible.
\<close>

theorem missing_attribute_finds_null_panel:
  "fst (tabs_script page_null) = [0] \<and> panels page_null = [1] \<and>
   getAttribute 0 ''data-tab'' page_null = None \<and>
   fst (click_listener [0] 0 page_null) = Inr () \<and>
   has_class (snd (click_listener [0] 0 page_null)) 1 ''visible''"
  by (simp add: dom_defs example_defs)

section \<open>Sequences of clicks\<close>

lemma selection_established_click:
  assumes "T \<in> set tabs"
  shows "selection_established tabs (snd (click_listener tabs T s))"
  using assms
  by (auto simp add: selection_established_def at_most_one_def active_click_listener
      visible_click_listener panels_click_listener target_of_click_listener
      split: option.split)

lemma clicks_snoc:
  "clicks tabs (ts @ [t]) s = snd (click_listener tabs t (clicks tabs ts s))"
  by (simp add: clicks_def)

text \<open>
  Claim C4, amended. In every state reached by one or more invocations of the click
  listeners of known triggers (and in every state reached by any number of them from a
  page that already satisfies it), at most one known trigger carries the \<^verbatim>\<open>active\<close>
  marker, at most one panel carries the \<^verbatim>\<open>visible\<close> marker, and whenever a known trigger
  is active the element its identifier resolves to, if there is one, is visible.
\<close>

theorem clicks_establish_selection:
  assumes "set ts \<subseteq> set tabs" and "ts \<noteq> [] \<or> selection_established tabs s"
  shows "selection_established tabs (clicks tabs ts s)"
proof (cases ts rule: rev_cases)
  case Nil
  with assms(2) show ?thesis by (simp add: clicks_def)
next
  case (snoc us t)
  with assms(1) have "t \<in> set tabs" by simp
  then show ?thesis
    unfolding snoc clicks_snoc by (rule selection_established_click)
qed

theorem clicks_establish_selection_witness:
  "(set [1, 0, 1] \<subseteq> set [0, 1::nat] \<and>
    [1, 0, 1::nat] \<noteq> [] \<and>
    selection_established [0, 1] (clicks [0, 1] [1, 0, 1] page_missing) \<and>
    has_class (clicks [0, 1] [1, 0, 1] page_missing) 1 ''active'') \<and>
   (set [] \<subseteq> set [0, 1::nat] \<and>
    selection_established [0, 1] page_ab \<and>
    selection_established [0, 1] (clicks [0, 1] [] page_ab))"
proof -
  have c: "has_class (clicks [0, 1] [1, 0, 1] page_missing) 1 ''active''"
    by (simp add: clicks_def active_click_listener)
  have e: "selection_established [0, 1] page_ab"
    by (simp add: selection_established_def at_most_one_def dom_defs example_defs)
  from clicks_establish_selection [of "[1, 0, 1]" "[0, 1]" page_missing]
    clicks_establish_selection [of "[]" "[0, 1]" page_ab] c e
  show ?thesis by simp
qed

text \<open>
  As worded, with the matching panel of an active trigger always visible, the invariant
  holds of the markup of the page with the dangling trigger and is lost by one click on
  that trigger: the trigger is active and has no matching panel.
\<close>

theorem click_breaks_selection_invariant:
  "fst (tabs_script page_missing) = [0, 1] \<and>
   selection_invariant [0, 1] page_missing \<and>
   \<not> selection_invariant [0, 1] (clicks [0, 1] [1] page_missing)"
proof -
  have a: "fst (tabs_script page_missing) = [0, 1]"
    by (simp add: dom_defs example_defs)
  have b: "selection_invariant [0, 1] page_missing"
    by (simp add: selection_invariant_def at_most_one_def dom_defs example_defs)
  have c: "has_class (clicks [0, 1] [1] page_missing) 1 ''active''"
    by (simp add: clicks_def active_click_listener)
  have d: "target_of 1 (clicks [0, 1] [1] page_missing) = None"
    by (simp add: clicks_def target_of_click_listener) (simp add: dom_defs example_defs)
  from c d have "\<not> selection_invariant [0, 1] (clicks [0, 1] [1] page_missing)"
    by (simp add: selection_invariant_def)
  with a b show ?thesis by simp
qed

lemma has_class_click_twice:
  "has_class (snd (click_listener tabs T (snd (click_listener tabs T s)))) r c =
   has_class (snd (click_listener tabs T s)) r c"
proof -
  consider "c = ''active''" | "c = ''visible''" | "c \<noteq> ''active''" "c \<noteq> ''visible''"
    by blast
  then show ?thesis
  proof cases
    case 1
    then show ?thesis by (auto simp add: active_click_listener)
  next
    case 2
    then show ?thesis
      by (auto simp add: visible_click_listener panels_click_listener target_of_click_listener)
  next
    case 3
    then show ?thesis by (simp add: other_class_click_listener)
  qed
qed

text \<open>
  Claim C5. Idempotence: for every trigger \<open>T\<close> and every starting page, invoking the
  click listener of \<open>T\<close> twice in a row ends the same way and leaves the same marker state
  as invoking it once: the same document and listeners, and on every element the same ID,
  attributes and set of class tokens.
\<close>

theorem click_twice_same_markers:
  "fst (click_listener tabs T (snd (click_listener tabs T s))) = fst (click_listener tabs T s) \<and>
   document (snd (click_listener tabs T (snd (click_listener tabs T s)))) =
     document (snd (click_listener tabs T s)) \<and>
   listeners (snd (click_listener tabs T (snd (click_listener tabs T s)))) =
     listeners (snd (click_listener tabs T s)) \<and>
   (\<forall>r. same_element (heap (snd (click_listener tabs T (snd (click_listener tabs T s)))) r)
          (heap (snd (click_listener tabs T s)) r))"
proof -
  have "set (classList (heap (snd (click_listener tabs T (snd (click_listener tabs T s)))) r)) =
        set (classList (heap (snd (click_listener tabs T s)) r))" for r
    using has_class_click_twice [of tabs T s r] by (auto simp add: has_class_def)
  then show ?thesis
    by (simp add: same_element_def fst_click_listener target_of_click_listener
        document_click_listener listeners_click_listener elem_id_click_listener
        attributes_click_listener)
qed

section \<open>What the script captures, and what it looks up at each click\<close>

lemma heap_forEach_addEventListener:
  "heap (forEach rs (\<lambda>tab. addEventListener tab (TabClick tab)) s) = heap s"
  unfolding forEach_def
  by (induction rs arbitrary: s) (simp_all add: addEventListener_def)

lemma document_forEach_addEventListener:
  "document (forEach rs (\<lambda>tab. addEventListener tab (TabClick tab)) s) = document s"
  unfolding forEach_def
  by (induction rs arbitrary: s) (simp_all add: addEventListener_def)

lemma listeners_forEach_addEventListener:
  "distinct rs \<Longrightarrow>
   listeners (forEach rs (\<lambda>tab. addEventListener tab (TabClick tab)) s) r =
     listeners s r @ (if r \<in> set rs then [TabClick r] else [])"
  unfolding forEach_def
proof (induction rs arbitrary: s)
  case Nil
  show ?case by simp
next
  case (Cons x xs)
  then show ?case by (auto simp add: addEventListener_def)
qed

lemma has_class_appendChild:
  "has_class (appendChild p s) r c = has_class s r c"
  by (simp add: has_class_def appendChild_def)

lemma listeners_appendChild:
  "listeners (appendChild p s) = listeners s"
  by (simp add: appendChild_def)

text \<open>
  Running listeners that are all closed over known triggers registers nothing and leaves
  the \<^verbatim>\<open>active\<close> marker of every other element as it was.
\<close>

lemma run_listeners_of_tabs:
  assumes "\<forall>l \<in> set ls. \<exists>y \<in> set tabs. l = TabClick y"
  shows "listeners (fold (\<lambda>l s'. snd (run_listener tabs l s')) ls s) = listeners s \<and>
         (r \<notin> set tabs \<longrightarrow>
            has_class (fold (\<lambda>l s'. snd (run_listener tabs l s')) ls s) r ''active'' =
            has_class s r ''active'')"
  using assms
proof (induction ls arbitrary: s)
  case Nil
  show ?case by simp
next
  case (Cons l ls)
  from Cons.prems obtain y where y: "y \<in> set tabs" "l = TabClick y" by auto
  from Cons.prems have rest: "\<forall>l \<in> set ls. \<exists>y \<in> set tabs. l = TabClick y" by simp
  from Cons.IH [OF rest, of "snd (click_listener tabs y s)"] y
  show ?case
    by (auto simp add: listeners_click_listener active_click_listener)
qed

lemma step_after_script:
  assumes "\<forall>x. listeners s x = (if x \<in> set tabs then [TabClick x] else [])"
  shows "listeners (step tabs ev s) = listeners s \<and>
         (r \<notin> set tabs \<longrightarrow> has_class (step tabs ev s) r ''active'' = has_class s r ''active'')"
proof (cases ev)
  case (Click x)
  from assms have "\<forall>l \<in> set (listeners s x). \<exists>y \<in> set tabs. l = TabClick y"
    by simp
  from run_listeners_of_tabs [OF this, of s r] Click show ?thesis
    by (simp add: dispatch_click_def)
next
  case (Attach x)
  then show ?thesis by (simp add: has_class_appendChild listeners_appendChild)
qed

lemma run_after_script:
  assumes "\<forall>x. listeners s x = (if x \<in> set tabs then [TabClick x] else [])"
  shows "listeners (run tabs evs s) = listeners s \<and>
         (r \<notin> set tabs \<longrightarrow> has_class (run tabs evs s) r ''active'' = has_class s r ''active'')"
  using assms unfolding run_def
proof (induction evs arbitrary: s)
  case Nil
  show ?case by simp
next
  case (Cons ev evs)
  from step_after_script [OF Cons.prems, of ev r]
  have st: "listeners (step tabs ev s) = listeners s"
    "r \<notin> set tabs \<longrightarrow> has_class (step tabs ev s) r ''active'' = has_class s r ''active''"
    by simp_all
  from st(1) Cons.prems
  have "\<forall>x. listeners (step tabs ev s) x = (if x \<in> set tabs then [TabClick x] else [])"
    by simp
  from Cons.IH [OF this] st show ?case by simp
qed

text \<open>
  Claim C7. When it runs, the script captures exactly the elements of the document that
  carry the trigger marker class at that moment and attaches one click listener to each
  (on a page where it has attached none before). An element that is not among them, such
  as a trigger attached to the document afterwards, receives no listener, and no later
  click changes its \<^verbatim>\<open>active\<close> marker: it is never deactivated.
\<close>

theorem script_captures_triggers_once:
  assumes "tabs_script s0 = (tabs, s1)" and "distinct (document s0)"
    and "\<forall>r. listeners s0 r = []"
  shows "set tabs = {r \<in> set (document s0). has_class s0 r ''tab-button''} \<and>
         distinct tabs \<and>
         (\<forall>r. listeners s1 r = (if r \<in> set tabs then [TabClick r] else [])) \<and>
         (\<forall>evs r. r \<notin> set tabs \<longrightarrow>
            listeners (run tabs evs s1) r = [] \<and>
            has_class (run tabs evs s1) r ''active'' = has_class s0 r ''active'')"
proof -
  from assms(1) have tabs: "tabs = querySelectorAll ''tab-button'' s0"
    and s1: "s1 = forEach tabs (\<lambda>tab. addEventListener tab (TabClick tab)) s0"
    by (auto simp add: tabs_script_def Let_def)
  from tabs have a: "set tabs = {r \<in> set (document s0). has_class s0 r ''tab-button''}"
    by (auto simp add: querySelectorAll_def)
  from tabs assms(2) have d: "distinct tabs"
    by (simp add: querySelectorAll_def)
  from d assms(3) have l: "listeners s1 r = (if r \<in> set tabs then [TabClick r] else [])" for r
    unfolding s1 by (simp add: listeners_forEach_addEventListener)
  then have o: "\<forall>x. listeners s1 x = (if x \<in> set tabs then [TabClick x] else [])"
    by simp
  have h: "has_class s1 r c = has_class s0 r c" for r c
    unfolding s1 by (simp add: has_class_def heap_forEach_addEventListener)
  have "listeners (run tabs evs s1) r = [] \<and>
        has_class (run tabs evs s1) r ''active'' = has_class s0 r ''active''"
    if "r \<notin> set tabs" for evs r
    using run_after_script [OF o, of evs r] that l [of r] h by simp
  with a d l show ?thesis by blast
qed

theorem script_captures_triggers_once_witness:
  "tabs_script page_ab = ([0, 1], snd (tabs_script page_ab)) \<and>
   distinct (document page_ab) \<and>
   listeners (snd (tabs_script page_ab)) 0 = [TabClick 0] \<and>
   listeners (snd (tabs_script page_ab)) 1 = [TabClick 1] \<and>
   listeners (snd (tabs_script page_ab)) 2 = [] \<and>
   has_class page_ab 4 ''tab-button'' \<and> has_class page_ab 4 ''active'' \<and>
   document (run [0, 1] [Attach 4, Click 4, Click 1] (snd (tabs_script page_ab))) =
     [0, 1, 2, 3, 4] \<and>
   listeners (run [0, 1] [Attach 4, Click 4, Click 1] (snd (tabs_script page_ab))) 4 = [] \<and>
   has_class (run [0, 1] [Attach 4, Click 4, Click 1] (snd (tabs_script page_ab))) 4 ''active'' \<and>
   has_class (run [0, 1] [Attach 4, Click 4, Click 1] (snd (tabs_script page_ab))) 1 ''active''"
proof -
  have t: "fst (tabs_script page_ab) = [0, 1]"
    by (simp add: dom_defs example_defs)
  then have ts: "tabs_script page_ab = ([0, 1], snd (tabs_script page_ab))"
    by (metis prod.collapse)
  have d: "distinct (document page_ab)" "\<forall>r. listeners page_ab r = []"
    "has_class page_ab 4 ''tab-button''" "has_class page_ab 4 ''active''"
    by (simp_all add: dom_defs example_defs)
  have doc: "document (run [0, 1] [Attach 4, Click 4, Click 1] (snd (tabs_script page_ab))) =
     [0, 1, 2, 3, 4]"
    by code_simp
  have act:
    "has_class (run [0, 1] [Attach 4, Click 4, Click 1] (snd (tabs_script page_ab))) 1 ''active''"
    by code_simp
  from script_captures_triggers_once [OF ts d(1) d(2)] ts d doc act
  show ?thesis by simp
qed

text \<open>
  Claim C9. Unlike the triggers, the panels are looked up at each click: a panel attached
  to the document after the script ran, and so unknown when it ran, loses its \<^verbatim>\<open>visible\<close>
  marker at the next click of any known trigger (unless it is that trigger's target), and
  the target is whatever element of the document at click time has the identifier, which
  becomes visible. A trigger that is not among the captured ones keeps its \<^verbatim>\<open>active\<close>
  marker.
\<close>

theorem panels_looked_up_at_click_time:
  assumes "tabs_script s0 = (tabs, s1)" and "T \<in> set tabs"
    and "p \<notin> set (document s0)" and "p \<in> set (panels s)"
  shows "p \<notin> set (panels s0) \<and>
         (target_of T s \<noteq> Some p \<longrightarrow>
            \<not> has_class (snd (click_listener tabs T s)) p ''visible'') \<and>
         (\<forall>e. target_of T s = Some e \<longrightarrow>
            fst (click_listener tabs T s) = Inr () \<and>
            has_class (snd (click_listener tabs T s)) e ''visible'') \<and>
         (\<forall>t. t \<notin> set tabs \<longrightarrow> has_class s t ''active'' \<longrightarrow>
            has_class (snd (click_listener tabs T s)) t ''active'')"
proof -
  from assms(3) have "p \<notin> set (panels s0)"
    by (simp add: panels_def querySelectorAll_def)
  with assms(4) show ?thesis
    by (simp add: fst_click_listener visible_click_listener active_click_listener)
qed

theorem panels_looked_up_at_click_time_witness:
  "(tabs_script page_ab = ([0, 1], snd (tabs_script page_ab)) \<and> (1::nat) \<in> set [0, 1] \<and>
    document page_ab = [0, 1, 2, 3] \<and> panels page_ab = [2, 3] \<and>
    panels (appendChild 5 (snd (tabs_script page_ab))) = [2, 3, 5] \<and>
    has_class (appendChild 5 (snd (tabs_script page_ab))) 5 ''visible'' \<and>
    target_of 1 (appendChild 5 (snd (tabs_script page_ab))) = Some 3 \<and>
    \<not> has_class (snd (click_listener [0, 1] 1 (appendChild 5 (snd (tabs_script page_ab)))))
        5 ''visible'' \<and>
    has_class (snd (click_listener [0, 1] 1 (appendChild 5 (snd (tabs_script page_ab)))))
        3 ''visible'' \<and>
    has_class (snd (click_listener [0, 1] 1 (appendChild 5 (snd (tabs_script page_ab)))))
        4 ''active'') \<and>
   (tabs_script page_missing = ([0, 1], snd (tabs_script page_missing)) \<and>
    document page_missing = [0, 1, 2] \<and> target_of 1 page_missing = None \<and>
    panels (appendChild 3 (snd (tabs_script page_missing))) = [2, 3] \<and>
    target_of 1 (appendChild 3 (snd (tabs_script page_missing))) = Some 3 \<and>
    fst (click_listener [0, 1] 1 (appendChild 3 (snd (tabs_script page_missing)))) = Inr () \<and>
    has_class (snd (click_listener [0, 1] 1 (appendChild 3 (snd (tabs_script page_missing)))))
        3 ''visible'')"
proof -
  have "fst (tabs_script page_ab) = [0, 1]"
    by (simp add: dom_defs example_defs)
  then have ta: "tabs_script page_ab = ([0, 1], snd (tabs_script page_ab))"
    by (metis prod.collapse)
  have "fst (tabs_script page_missing) = [0, 1]"
    by (simp add: dom_defs example_defs)
  then have tm: "tabs_script page_missing = ([0, 1], snd (tabs_script page_missing))"
    by (metis prod.collapse)
  have a: "document page_ab = [0, 1, 2, 3]" "panels page_ab = [2, 3]"
    "panels (appendChild 5 (snd (tabs_script page_ab))) = [2, 3, 5]"
    "has_class (appendChild 5 (snd (tabs_script page_ab))) 5 ''visible''"
    "has_class (appendChild 5 (snd (tabs_script page_ab))) 4 ''active''"
    "target_of 1 (appendChild 5 (snd (tabs_script page_ab))) = Some 3"
    by code_simp+
  have m: "document page_missing = [0, 1, 2]" "target_of 1 page_missing = None"
    "panels (appendChild 3 (snd (tabs_script page_missing))) = [2, 3]"
    "target_of 1 (appendChild 3 (snd (tabs_script page_missing))) = Some 3"
    by code_simp+
  have i: "(1::nat) \<in> set [0, 1]" by simp
  from panels_looked_up_at_click_time [OF ta i, of 5 "appendChild 5 (snd (tabs_script page_ab))"]
    panels_looked_up_at_click_time [OF tm i, of 3 "appendChild 3 (snd (tabs_script page_missing))"]
    ta tm a m
  show ?thesis by simp
qed

section \<open>What a click leaves alone\<close>

lemma heap_classList_add_other:
  "r \<noteq> x \<Longrightarrow> heap (classList_add x c s) r = heap s r"
  by (simp add: classList_add_def)

lemma heap_click_listener_untouched:
  assumes "r \<notin> set tabs" and "r \<noteq> T" and "r \<notin> set (panels s)"
    and "target_of T s \<noteq> Some r"
  shows "heap (snd (click_listener tabs T s)) r = heap s r"
  using assms
  by (cases "target_of T s")
     (simp_all add: snd_click_listener Let_def heap_classList_add_other heap_forEach_remove)

lemma other_tokens_click_listener:
  "filter (\<lambda>c. c \<noteq> ''active'' \<and> c \<noteq> ''visible'')
     (classList (heap (snd (click_listener tabs T s)) r)) =
   filter (\<lambda>c. c \<noteq> ''active'' \<and> c \<noteq> ''visible'') (classList (heap s r))"
proof -
  define keep :: "string list \<Rightarrow> string list"
    where "keep = filter (\<lambda>c. c \<noteq> ''active'' \<and> c \<noteq> ''visible'')"
  have rm: "keep (removeAll d cs) = keep cs" if "d = ''active'' \<or> d = ''visible''" for d cs
    using that unfolding keep_def by (induction cs) auto
  have ad: "keep (cs @ [d]) = keep cs" if "d = ''active'' \<or> d = ''visible''" for d cs
    using that unfolding keep_def by auto
  have "keep (classList (heap (snd (click_listener tabs T s)) r)) = keep (classList (heap s r))"
    unfolding classList_click_listener Let_def
    by (simp only: rm ad if_distrib [of keep] simp_thms if_cancel)
  then show ?thesis unfolding keep_def .
qed

text \<open>
  Claim C8, amended. Frame condition: an invocation of the click listener of a known
  trigger \<open>T\<close> changes nothing but the \<^verbatim>\<open>active\<close> marker of known triggers, the \<^verbatim>\<open>visible\<close>
  marker of panels, and the \<^verbatim>\<open>visible\<close> marker of the element that the identifier of \<open>T\<close>
  resolves to, which need not be a panel. Every other element is left as it was; on every
  element the ID, the attributes and the other class tokens are kept; the document and
  the listeners are the same, so no element is created or destroyed.
\<close>

theorem click_frame:
  assumes "T \<in> set tabs"
  shows "document (snd (click_listener tabs T s)) = document s \<and>
         listeners (snd (click_listener tabs T s)) = listeners s \<and>
         (\<forall>r. elem_id (heap (snd (click_listener tabs T s)) r) = elem_id (heap s r) \<and>
              attributes (heap (snd (click_listener tabs T s)) r) = attributes (heap s r) \<and>
              filter (\<lambda>c. c \<noteq> ''active'' \<and> c \<noteq> ''visible'')
                  (classList (heap (snd (click_listener tabs T s)) r)) =
                filter (\<lambda>c. c \<noteq> ''active'' \<and> c \<noteq> ''visible'') (classList (heap s r)) \<and>
              (r \<notin> set tabs \<longrightarrow>
                 has_class (snd (click_listener tabs T s)) r ''active'' =
                 has_class s r ''active'') \<and>
              (r \<notin> set (panels s) \<longrightarrow> target_of T s \<noteq> Some r \<longrightarrow>
                 has_class (snd (click_listener tabs T s)) r ''visible'' =
                 has_class s r ''visible'') \<and>
              (r \<notin> set tabs \<longrightarrow> r \<notin> set (panels s) \<longrightarrow> target_of T s \<noteq> Some r \<longrightarrow>
                 heap (snd (click_listener tabs T s)) r = heap s r))"
proof -
  have "heap (snd (click_listener tabs T s)) r = heap s r"
    if "r \<notin> set tabs" "r \<notin> set (panels s)" "target_of T s \<noteq> Some r" for r
  proof -
    from that(1) assms have "r \<noteq> T" by auto
    with that show ?thesis by (simp add: heap_click_listener_untouched)
  qed
  moreover have "has_class (snd (click_listener tabs T s)) r ''active'' = has_class s r ''active''"
    if "r \<notin> set tabs" for r
    using that assms by (auto simp add: active_click_listener)
  ultimately show ?thesis
    by (simp add: document_click_listener listeners_click_listener elem_id_click_listener
        attributes_click_listener other_tokens_click_listener visible_click_listener)
qed

theorem click_frame_witness:
  "(1::nat) \<in> set [0, 1] \<and> panels page_ab = [2, 3] \<and> target_of 1 page_ab = Some 3 \<and>
   document (snd (click_listener [0, 1] 1 page_ab)) = [0, 1, 2, 3] \<and>
   elem_id (heap (snd (click_listener [0, 1] 1 page_ab)) 3) = Some ''panel-b'' \<and>
   filter (\<lambda>c. c \<noteq> ''active'' \<and> c \<noteq> ''visible'')
     (classList (heap (snd (click_listener [0, 1] 1 page_ab)) 3)) = [''tab-content''] \<and>
   has_class (snd (click_listener [0, 1] 1 page_ab)) 4 ''active'' \<and>
   has_class (snd (click_listener [0, 1] 1 page_ab)) 5 ''visible'' \<and>
   heap (snd (click_listener [0, 1] 1 page_ab)) 5 = panel ''panel-c'' [''visible''] \<and>
   heap (snd (click_listener [0, 1] 1 page_ab)) 6 = blank"
proof -
  have b: "panels page_ab = [2, 3]" "target_of 1 page_ab = Some 3"
    "document page_ab = [0, 1, 2, 3]" "heap page_ab 3 = panel ''panel-b'' []"
    "heap page_ab 4 = button [''active''] ''panel-c''"
    "heap page_ab 5 = panel ''panel-c'' [''visible'']" "heap page_ab 6 = blank"
    by (simp_all add: dom_defs example_defs)
  have m: "(1::nat) \<in> set [0, 1]" by simp
  note th = click_frame [OF m, of page_ab]
  from th b(3) have 1: "document (snd (click_listener [0, 1] 1 page_ab)) = [0, 1, 2, 3]"
    by simp
  from th
  have "elem_id (heap (snd (click_listener [0, 1] 1 page_ab)) 3) = elem_id (heap page_ab 3)"
    by blast
  with b(4) have 2: "elem_id (heap (snd (click_listener [0, 1] 1 page_ab)) 3) = Some ''panel-b''"
    by (simp add: panel_def)
  from th have "filter (\<lambda>c. c \<noteq> ''active'' \<and> c \<noteq> ''visible'')
     (classList (heap (snd (click_listener [0, 1] 1 page_ab)) 3)) =
     filter (\<lambda>c. c \<noteq> ''active'' \<and> c \<noteq> ''visible'') (classList (heap page_ab 3))"
    by blast
  with b(4) have 3: "filter (\<lambda>c. c \<noteq> ''active'' \<and> c \<noteq> ''visible'')
     (classList (heap (snd (click_listener [0, 1] 1 page_ab)) 3)) = [''tab-content'']"
    by (simp add: panel_def)
  from th have "4 \<notin> set [0, 1::nat] \<longrightarrow>
      has_class (snd (click_listener [0, 1] 1 page_ab)) 4 ''active'' =
      has_class page_ab 4 ''active''"
    by blast
  with b(5) have 4: "has_class (snd (click_listener [0, 1] 1 page_ab)) 4 ''active''"
    by (simp add: has_class_def button_def)
  from th have h: "r \<notin> set [0, 1::nat] \<longrightarrow> r \<notin> set (panels page_ab) \<longrightarrow>
      target_of 1 page_ab \<noteq> Some r \<longrightarrow>
      heap (snd (click_listener [0, 1] 1 page_ab)) r = heap page_ab r" for r
    by blast
  from h [of 5] b
  have 5: "heap (snd (click_listener [0, 1] 1 page_ab)) 5 = panel ''panel-c'' [''visible'']"
    by simp
  from h [of 6] b have 6: "heap (snd (click_listener [0, 1] 1 page_ab)) 6 = blank"
    by simp
  from 5 have 7: "has_class (snd (click_listener [0, 1] 1 page_ab)) 5 ''visible''"
    by (simp add: has_class_def panel_def)
  from m b 1 2 3 4 5 6 7 show ?thesis by simp
qed

text \<open>
  As worded, with nothing modified outside the triggers and the panels, the statement
  fails on the page whose trigger names an element that has the ID but not the panel
  marker class: that element is neither a trigger nor a panel, and the click gives it the
  \<^verbatim>\<open>visible\<close> marker.
\<close>

theorem click_marks_element_that_is_no_panel:
  "fst (tabs_script page_plain) = [0] \<and> panels page_plain = [] \<and>
   classList (heap page_plain 1) = [] \<and>
   fst (click_listener [0] 0 page_plain) = Inr () \<and>
   classList (heap (snd (click_listener [0] 0 page_plain)) 1) = [''visible'']"
  by (simp add: dom_defs example_defs)

end
